theory Spec2Isabelle
  imports Main
begin

section \<open>The ACME provisioner of authority/provisioner/acme.go\<close>

text \<open>
  A shallow embedding of \<^verbatim>\<open>authority/provisioner/acme.go\<close>. A Go string is a sequence of
  bytes, here a \<^typ>\<open>string\<close> (a list of 8-bit characters). A Go \<^verbatim>\<open>error\<close> result is an
  \<open>error option\<close>: \<^term>\<open>None\<close> is \<^verbatim>\<open>nil\<close>. A nil pointer is \<^term>\<open>None\<close> as well, and
  a read of a field through it is the outcome \<open>Panic\<close>. The \<^verbatim>\<open>context.Context\<close> argument of the
  methods is never read by them and is left out.
\<close>

subsection \<open>The parts of Go's standard library the file calls\<close>

text \<open>
  \<^verbatim>\<open>strings.ToLower\<close> and \<^verbatim>\<open>strings.EqualFold\<close> work on the UTF-8 decoding of a string
  and, beyond ASCII, on the case tables of package \<^verbatim>\<open>unicode\<close>. The decoding, the
  encoding and everything about ASCII is modelled as the library computes it. The
  tables themselves are data that is not part of this repository: they are the
  parameter \<open>U\<close> of the functions below, and every theorem holds for any tables.
\<close>

type_synonym rune = int

record unicode_tables =
  To_LowerCase :: "rune \<Rightarrow> rune"
  FoldOrbit :: "rune \<Rightarrow> rune \<Rightarrow> bool"

text \<open>
  \<^term>\<open>To_LowerCase U r\<close> is \<^verbatim>\<open>unicode.To(unicode.LowerCase, r)\<close>, asked only for
  \<open>r\<close> above \<^verbatim>\<open>unicode.MaxASCII\<close>. \<^term>\<open>FoldOrbit U sr tr\<close> is the general case of
  \<^verbatim>\<open>strings.EqualFold\<close>, asked only for \<open>sr < tr\<close> with \<open>tr\<close> not ASCII: whether walking
  \<^verbatim>\<open>unicode.SimpleFold\<close> from \<open>sr\<close> reaches \<open>tr\<close>. The folding orbits of the library's
  tables are finite cycles, so that walk ends.
\<close>

definition RuneSelf :: nat where
  "RuneSelf = 0x80"

definition RuneError :: rune where
  "RuneError = 0xFFFD"

definition MaxRune :: rune where
  "MaxRune = 0x10FFFF"

text \<open>
  \<^verbatim>\<open>utf8.DecodeRuneInString\<close>: the first rune of the string and its width in bytes;
  \<open>(RuneError, 0)\<close> for the empty string and \<open>(RuneError, 1)\<close> for an invalid encoding.
  The table \<^verbatim>\<open>first\<close> and the \<^verbatim>\<open>acceptRanges\<close> are written out as comparisons.
\<close>

definition DecodeRuneInString :: "string \<Rightarrow> rune \<times> nat" where
  "DecodeRuneInString s =
     (case s of
        [] \<Rightarrow> (RuneError, 0)
      | c0 # rest \<Rightarrow>
          (let s0 = (of_char c0 :: nat) in
           if s0 < RuneSelf then (int s0, 1)
           else if s0 < 0xC2 \<or> 0xF5 \<le> s0 then (RuneError, 1)
           else
             (let sz = (if s0 < 0xE0 then 2 else if s0 < 0xF0 then 3 else (4::nat));
                  lo = (if s0 = 0xE0 then 0xA0 else if s0 = 0xF0 then 0x90 else (0x80::nat));
                  hi = (if s0 = 0xED then 0x9F else if s0 = 0xF4 then 0x8F else (0xBF::nat))
              in
              if length s < sz then (RuneError, 1)
              else
                (let s1 = (of_char (rest ! 0) :: nat) in
                 if s1 < lo \<or> hi < s1 then (RuneError, 1)
                 else if sz \<le> 2 then (int ((s0 mod 32) * 64 + s1 mod 64), 2)
                 else
                   (let s2 = (of_char (rest ! 1) :: nat) in
                    if s2 < 0x80 \<or> 0xBF < s2 then (RuneError, 1)
                    else if sz \<le> 3
                      then (int ((s0 mod 16) * 4096 + (s1 mod 64) * 64 + s2 mod 64), 3)
                    else
                      (let s3 = (of_char (rest ! 2) :: nat) in
                       if s3 < 0x80 \<or> 0xBF < s3 then (RuneError, 1)
                       else (int ((s0 mod 8) * 262144 + (s1 mod 64) * 4096
                                   + (s2 mod 64) * 64 + s3 mod 64), 4)))))))"

text \<open>
  \<^verbatim>\<open>utf8.EncodeRune\<close>, which \<^verbatim>\<open>strings.Builder.WriteRune\<close> calls: the UTF-8 encoding of a
  rune. The library compares the rune as an unsigned number, so a negative rune, like
  a surrogate or a rune beyond \<open>MaxRune\<close>, is encoded as \<open>RuneError\<close>.
\<close>

definition EncodeRune :: "rune \<Rightarrow> string" where
  "EncodeRune r =
     (if 0 \<le> r \<and> r \<le> 0x7F then [char_of r]
      else if 0 \<le> r \<and> r \<le> 0x7FF then [char_of (0xC0 + r div 64), char_of (0x80 + r mod 64)]
      else
        (let q = (if r < 0 \<or> MaxRune < r \<or> (0xD800 \<le> r \<and> r \<le> 0xDFFF)
                  then RuneError else r) in
         if q \<le> 0xFFFF
           then [char_of (0xE0 + q div 4096), char_of (0x80 + (q div 64) mod 64),
                 char_of (0x80 + q mod 64)]
           else [char_of (0xF0 + q div 262144), char_of (0x80 + (q div 4096) mod 64),
                 char_of (0x80 + (q div 64) mod 64), char_of (0x80 + q mod 64)]))"

text \<open>
  The first rune of a non-empty string and the rest of the string, as the loops of
  \<^verbatim>\<open>strings.EqualFold\<close> and of a \<^verbatim>\<open>range\<close> over a string take them: one byte when it
  is ASCII or starts no valid encoding, the whole encoding otherwise.
\<close>

definition firstRune :: "string \<Rightarrow> rune \<times> string" where
  "firstRune s =
     (if of_char (hd s) < RuneSelf then (int (of_char (hd s)), tl s)
      else (fst (DecodeRuneInString s), drop (snd (DecodeRuneInString s)) s))"

lemma DecodeRuneInString_width:
  "s \<noteq> [] \<Longrightarrow> 1 \<le> snd (DecodeRuneInString s)"
  by (cases s) (simp_all add: DecodeRuneInString_def Let_def)

lemma firstRune_shorter:
  "s \<noteq> [] \<Longrightarrow> length (snd (firstRune s)) < length s"
  using DecodeRuneInString_width [of s] by (cases s) (auto simp: firstRune_def)

text \<open>\<^verbatim>\<open>unicode.ToLower\<close>: ASCII letters by arithmetic, every other rune by the tables.\<close>

definition unicode_ToLower :: "unicode_tables \<Rightarrow> rune \<Rightarrow> rune" where
  "unicode_ToLower U r =
     (if r \<le> 0x7F then (if 0x41 \<le> r \<and> r \<le> 0x5A then r + 0x20 else r)
      else To_LowerCase U r)"

text \<open>
  \<^verbatim>\<open>strings.Map(mapping, s)\<close>: every rune of \<open>s\<close> (an invalid byte counts as
  \<open>RuneError\<close>) is replaced by its image, and a negative image is dropped.
\<close>

function strings_Map :: "(rune \<Rightarrow> rune) \<Rightarrow> string \<Rightarrow> string" where
  "strings_Map mapping s =
     (if s = [] then []
      else (let r = mapping (fst (firstRune s)) in
            (if 0 \<le> r then EncodeRune r else []) @ strings_Map mapping (snd (firstRune s))))"
  by pat_completeness auto
termination
  by (relation "measure (\<lambda>(m, s). length s)") (auto simp: firstRune_shorter)

declare strings_Map.simps [simp del]

text \<open>
  \<^verbatim>\<open>strings.ToLower\<close>: a string of ASCII bytes only is lower-cased byte by byte (and
  returned as it is when it has no upper-case letter); any other string goes through
  \<^verbatim>\<open>Map(unicode.ToLower, s)\<close>.
\<close>

definition isASCII :: "string \<Rightarrow> bool" where
  "isASCII s = list_all (\<lambda>c. (of_char c :: nat) < RuneSelf) s"

definition hasUpper :: "string \<Rightarrow> bool" where
  "hasUpper s = list_ex (\<lambda>c. 0x41 \<le> (of_char c :: nat) \<and> (of_char c :: nat) \<le> 0x5A) s"

definition lowerByte :: "char \<Rightarrow> char" where
  "lowerByte c =
     (if 0x41 \<le> (of_char c :: nat) \<and> (of_char c :: nat) \<le> 0x5A
      then char_of ((of_char c :: nat) + 0x20) else c)"

definition strings_ToLower :: "unicode_tables \<Rightarrow> string \<Rightarrow> string" where
  "strings_ToLower U s =
     (if isASCII s then (if \<not> hasUpper s then s else map lowerByte s)
      else strings_Map (unicode_ToLower U) s)"

text \<open>
  \<^verbatim>\<open>strings.EqualFold\<close>: the two strings are read rune by rune. Two runes match when
  they are equal, when both are ASCII and are the upper and lower case of one letter,
  or, when one of them is not ASCII, when the tables fold one to the other.
\<close>

definition runesFold :: "unicode_tables \<Rightarrow> rune \<Rightarrow> rune \<Rightarrow> bool" where
  "runesFold U sr0 tr0 =
     (if tr0 = sr0 then True
      else (let sr = min sr0 tr0; tr = max sr0 tr0 in
            if tr < int RuneSelf then 0x41 \<le> sr \<and> sr \<le> 0x5A \<and> tr = sr + 0x20
            else FoldOrbit U sr tr))"

function strings_EqualFold :: "unicode_tables \<Rightarrow> string \<Rightarrow> string \<Rightarrow> bool" where
  "strings_EqualFold U s t =
     (if s \<noteq> [] \<and> t \<noteq> []
      then (if runesFold U (fst (firstRune s)) (fst (firstRune t))
            then strings_EqualFold U (snd (firstRune s)) (snd (firstRune t))
            else False)
      else s = t)"
  by pat_completeness auto
termination
  by (relation "measure (\<lambda>(U, s, t). length s)") (auto simp: firstRune_shorter)

declare strings_EqualFold.simps [simp del]

subsection \<open>Errors\<close>

text \<open>
  The file builds its errors with \<^verbatim>\<open>errors.New(msg)\<close> and \<^verbatim>\<open>fmt.Errorf(format, arg)\<close>.
  An error of \<^verbatim>\<open>fmt.Errorf\<close> is kept as its format and the strings its verbs format.
  \<^verbatim>\<open>fmt\<close> formats an operand that has a \<^verbatim>\<open>String\<close> method through that method (for the
  verbs \<^verbatim>\<open>%s\<close>, \<^verbatim>\<open>%q\<close> and \<^verbatim>\<open>%v\<close>), so the string a verb formats for an
  \<^verbatim>\<open>ACMEChallenge\<close> is the value of its \<^verbatim>\<open>String()\<close>.
\<close>

datatype error = errors_New string | fmt_Errorf string "string list"

subsection \<open>Challenges\<close>

type_synonym ACMEChallenge = string

definition HTTP_01 :: ACMEChallenge where
  "HTTP_01 = ''http-01''"

definition DNS_01 :: ACMEChallenge where
  "DNS_01 = ''dns-01''"

definition TLS_ALPN_01 :: ACMEChallenge where
  "TLS_ALPN_01 = ''tls-alpn-01''"

definition DEVICE_ATTEST_01 :: ACMEChallenge where
  "DEVICE_ATTEST_01 = ''device-attest-01''"

text \<open>\<^verbatim>\<open>func (c ACMEChallenge) String() string\<close>\<close>

definition ACMEChallenge_String :: "unicode_tables \<Rightarrow> ACMEChallenge \<Rightarrow> string" where
  "ACMEChallenge_String U c = strings_ToLower U c"

text \<open>\<^verbatim>\<open>func (c ACMEChallenge) Validate() error\<close>\<close>

definition Validate :: "unicode_tables \<Rightarrow> ACMEChallenge \<Rightarrow> error option" where
  "Validate U c =
     (let n = ACMEChallenge_String U c in
      if n = HTTP_01 \<or> n = DNS_01 \<or> n = TLS_ALPN_01 \<or> n = DEVICE_ATTEST_01 then None
      else Some (fmt_Errorf ''acme challenge %q is not supported'' [ACMEChallenge_String U c]))"

subsection \<open>The controller and its policy\<close>

text \<open>
  Modelled from the spec: the types \<^verbatim>\<open>Controller\<close>, \<^verbatim>\<open>Claimer\<close>, the policy engine and
  its X.509 policy are declared in files of the repository that are not among the
  sources. The provisioner reads three durations from the controller's claimer
  (\<^verbatim>\<open>DefaultTLSCertDuration()\<close>, \<^verbatim>\<open>MinTLSCertDuration()\<close>, \<^verbatim>\<open>MaxTLSCertDuration()\<close>)
  and the X.509 policy through \<^verbatim>\<open>getPolicy().getX509()\<close>, which "may be absent/nil";
  the policy answers \<^verbatim>\<open>IsIPAllowed(ip) error\<close> and \<^verbatim>\<open>IsDNSAllowed(name) error\<close>.
  A \<^verbatim>\<open>time.Duration\<close> is a count of nanoseconds. A \<^verbatim>\<open>net.IP\<close> is a byte slice, \<^verbatim>\<open>nil\<close>
  for a text that is no address.
\<close>

type_synonym Duration = int

type_synonym net_IP = "nat list option"

record Claimer =
  DefaultTLSCertDur :: Duration
  MinTLSCertDur :: Duration
  MaxTLSCertDur :: Duration

record X509Policy =
  IsIPAllowed :: "net_IP \<Rightarrow> error option"
  IsDNSAllowed :: "string \<Rightarrow> error option"

record policyEngine =
  x509 :: "X509Policy option"

record Controller =
  Claimer :: Claimer
  policy :: "policyEngine option"

text \<open>
  Modelled from the spec: the accessors \<^verbatim>\<open>getPolicy()\<close> and \<^verbatim>\<open>getX509()\<close> of the
  call \<^verbatim>\<open>p.ctl.getPolicy().getX509()\<close>. The policy "may be absent/nil": a nil
  controller has no policy engine and a nil policy engine has no X.509 policy.
\<close>

definition getPolicy :: "Controller option \<Rightarrow> policyEngine option" where
  "getPolicy c = (case c of None \<Rightarrow> None | Some k \<Rightarrow> policy k)"

definition getX509 :: "policyEngine option \<Rightarrow> X509Policy option" where
  "getX509 e = (case e of None \<Rightarrow> None | Some pe \<Rightarrow> x509 pe)"

subsection \<open>The provisioner\<close>

text \<open>
  The struct \<^verbatim>\<open>ACME\<close>. The types of its claims and options (\<^verbatim>\<open>*Claims\<close>, \<^verbatim>\<open>*Options\<close>)
  are declared elsewhere and only handed on to \<^verbatim>\<open>NewController\<close>: they are the type
  parameters \<open>'c\<close> and \<open>'o\<close>. The embedded \<^verbatim>\<open>*base\<close> is read by none of the methods
  below and is left out.
\<close>

record ('c, 'o) ACME =
  ID :: string
  Type :: string
  Name :: string
  ForceCN :: bool
  RequireEAB :: bool
  Challenges :: "ACMEChallenge list"
  Claims :: "'c option"
  Options :: "'o option"
  ctl :: "Controller option"

text \<open>What a call does: it returns a value, or it panics on a nil pointer.\<close>

datatype 'a outcome = Return 'a | Panic

text \<open>\<^verbatim>\<open>func (p *ACME) GetIDForToken() string\<close> and \<^verbatim>\<open>func (p ACME) GetID() string\<close>\<close>

definition GetIDForToken :: "('c, 'o) ACME \<Rightarrow> string" where
  "GetIDForToken p = ''acme/'' @ Name p"

definition GetID :: "('c, 'o) ACME \<Rightarrow> string" where
  "GetID p = (if ID p \<noteq> [] then ID p else GetIDForToken p)"

text \<open>\<^verbatim>\<open>func (p *ACME) DefaultTLSCertDuration() time.Duration\<close>\<close>

definition DefaultTLSCertDuration :: "('c, 'o) ACME \<Rightarrow> Duration outcome" where
  "DefaultTLSCertDuration p =
     (case ctl p of None \<Rightarrow> Panic | Some k \<Rightarrow> Return (DefaultTLSCertDur (Claimer k)))"

text \<open>
  \<^verbatim>\<open>func (p *ACME) Init(config Config) (err error)\<close>. The loop over \<^verbatim>\<open>p.Challenges\<close>
  returns the error of the first challenge that does not validate.
  \<^verbatim>\<open>NewController\<close> is not among the sources: it is the parameter \<open>NC\<close>, with the
  signature it has in Go, a pointer and an error. The call mutates \<open>p\<close>: the result is
  the error and the provisioner after the call.
\<close>

fun Init_challenges :: "unicode_tables \<Rightarrow> ACMEChallenge list \<Rightarrow> error option" where
  "Init_challenges U [] = None"
| "Init_challenges U (c # cs) =
     (case Validate U c of Some err \<Rightarrow> Some err | None \<Rightarrow> Init_challenges U cs)"

definition Init ::
  "(('c, 'o) ACME \<Rightarrow> 'c option \<Rightarrow> 'cfg \<Rightarrow> 'o option \<Rightarrow> Controller option \<times> error option)
   \<Rightarrow> unicode_tables \<Rightarrow> ('c, 'o) ACME \<Rightarrow> 'cfg \<Rightarrow> error option \<times> ('c, 'o) ACME" where
  "Init NC U p config =
     (if Type p = [] then (Some (errors_New ''provisioner type cannot be empty''), p)
      else if Name p = [] then (Some (errors_New ''provisioner name cannot be empty''), p)
      else
        (case Init_challenges U (Challenges p) of
           Some err \<Rightarrow> (Some err, p)
         | None \<Rightarrow>
             (let r = NC p (Claims p) config (Options p) in (snd r, p\<lparr>ctl := fst r\<rparr>))))"

subsection \<open>Order identifiers\<close>

type_synonym ACMEIdentifierType = string

definition IP :: ACMEIdentifierType where
  "IP = ''ip''"

definition DNS :: ACMEIdentifierType where
  "DNS = ''dns''"

record ACMEIdentifier =
  IdType :: ACMEIdentifierType
  Value :: string

text \<open>
  \<^verbatim>\<open>func (p *ACME) AuthorizeOrderIdentifier(ctx, identifier ACMEIdentifier) error\<close>.
  The field \<^verbatim>\<open>Type\<close> of the identifier is \<open>IdType\<close> here, the provisioner having a
  field \<open>Type\<close> of its own. \<^verbatim>\<open>net.ParseIP\<close> is the parameter \<open>ParseIP\<close>.
\<close>

definition AuthorizeOrderIdentifier ::
  "(string \<Rightarrow> net_IP) \<Rightarrow> ('c, 'o) ACME \<Rightarrow> ACMEIdentifier \<Rightarrow> error option" where
  "AuthorizeOrderIdentifier ParseIP p identifier =
     (case getX509 (getPolicy (ctl p)) of
        None \<Rightarrow> None
      | Some x509Policy \<Rightarrow>
          (if IdType identifier = IP then IsIPAllowed x509Policy (ParseIP (Value identifier))
           else if IdType identifier = DNS then IsDNSAllowed x509Policy (Value identifier)
           else Some (fmt_Errorf ''invalid ACME identifier type '%s' provided''
                        [IdType identifier])))"

subsection \<open>Sign options\<close>

text \<open>
  Modelled from the spec: the provisioner kinds and the sign options are declared in
  files that are not among the sources. A sign option is the value its constructor
  call builds: \<^verbatim>\<open>newProvisionerExtensionOption(typ, name, credentialID)\<close>,
  \<^verbatim>\<open>newForceCNOption(forceCN)\<close>, \<^verbatim>\<open>profileDefaultDuration(d)\<close>,
  \<^verbatim>\<open>defaultPublicKeyValidator{}\<close>, \<^verbatim>\<open>newValidityValidator(min, max)\<close> and
  \<^verbatim>\<open>newX509NamePolicyValidator(policy)\<close>; the provisioner itself is a sign option too.
\<close>

datatype ProvisionerType = TypeACME

datatype ('c, 'o) SignOption =
    Provisioner "('c, 'o) ACME"
  | provisionerExtensionOption ProvisionerType string string
  | forceCNOption bool
  | profileDefaultDuration Duration
  | defaultPublicKeyValidator
  | validityValidator Duration Duration
  | x509NamePolicyValidator "X509Policy option"

text \<open>\<^verbatim>\<open>func (p *ACME) AuthorizeSign(ctx, token string) ([]SignOption, error)\<close>\<close>

definition AuthorizeSign ::
  "('c, 'o) ACME \<Rightarrow> string \<Rightarrow> (('c, 'o) SignOption list \<times> error option) outcome" where
  "AuthorizeSign p token =
     (case ctl p of
        None \<Rightarrow> Panic
      | Some k \<Rightarrow>
          Return
            ([Provisioner p,
              provisionerExtensionOption TypeACME (Name p) [],
              forceCNOption (ForceCN p),
              profileDefaultDuration (DefaultTLSCertDur (Claimer k)),
              defaultPublicKeyValidator,
              validityValidator (MinTLSCertDur (Claimer k)) (MaxTLSCertDur (Claimer k)),
              x509NamePolicyValidator (getX509 (getPolicy (ctl p)))],
             None))"

text \<open>\<^verbatim>\<open>func (p *ACME) AuthorizeRevoke(ctx, token string) error\<close>\<close>

definition AuthorizeRevoke :: "('c, 'o) ACME \<Rightarrow> string \<Rightarrow> error option" where
  "AuthorizeRevoke p token = None"

text \<open>\<^verbatim>\<open>func (p *ACME) IsChallengeEnabled(ctx, challenge ACMEChallenge) bool\<close>\<close>

fun IsChallengeEnabled_loop :: "unicode_tables \<Rightarrow> ACMEChallenge list \<Rightarrow> ACMEChallenge \<Rightarrow> bool" where
  "IsChallengeEnabled_loop U [] challenge = False"
| "IsChallengeEnabled_loop U (ch # chs) challenge =
     (if strings_EqualFold U ch challenge then True
      else IsChallengeEnabled_loop U chs challenge)"

definition IsChallengeEnabled :: "unicode_tables \<Rightarrow> ('c, 'o) ACME \<Rightarrow> ACMEChallenge \<Rightarrow> bool" where
  "IsChallengeEnabled U p challenge =
     (let enabledChallenges =
            (if length (Challenges p) > 0 then Challenges p
             else [HTTP_01, DNS_01, TLS_ALPN_01])
      in IsChallengeEnabled_loop U enabledChallenges challenge)"

section \<open>The notions of the specification\<close>

text \<open>
  The four defined challenge kinds. The code compares challenge names without regard
  to case in two ways: \<open>Validate\<close> lower-cases the name with \<^verbatim>\<open>strings.ToLower\<close> (the
  "normalized value" of the specification) and compares the result with the kinds,
  \<open>IsChallengeEnabled\<close> compares with \<^verbatim>\<open>strings.EqualFold\<close>. On ASCII strings the two
  agree and both say that the strings are equal up to the case of their letters
  (lemmas \<open>strings_ToLower_ASCII\<close> and \<open>strings_EqualFold_ASCII\<close> below); beyond ASCII
  each follows its own Unicode table, and they differ.
\<close>

definition definedKinds :: "ACMEChallenge list" where
  "definedKinds = [HTTP_01, DNS_01, TLS_ALPN_01, DEVICE_ATTEST_01]"

text \<open>
  The effective set of enabled challenges: the configured list as it is when it is not
  empty, the three default challenges otherwise.
\<close>

definition effectiveSet :: "('c, 'o) ACME \<Rightarrow> ACMEChallenge list" where
  "effectiveSet p =
     (if Challenges p \<noteq> [] then Challenges p else [HTTP_01, DNS_01, TLS_ALPN_01])"

section \<open>Example values\<close>

text \<open>
  Concrete values at which the theorems below are instantiated: Unicode tables with no
  case pair beyond ASCII and tables with Go's entries next to ASCII, a controller without a policy and one with an X.509 policy
  that allows the name \<open>example.com\<close> and every parsed address, a provisioner that
  has not been initialized, a parser that knows one address, and a controller
  constructor that succeeds.
\<close>

definition example_tables :: unicode_tables where
  "example_tables = \<lparr>To_LowerCase = (\<lambda>r. r), FoldOrbit = (\<lambda>sr tr. False)\<rparr>"

text \<open>
  The entries of Go's tables that an ASCII letter can meet: \<^verbatim>\<open>unicode.ToLower\<close> sends
  U+0130 (capital I with dot above) to \<open>i\<close> and U+212A (Kelvin sign) to \<open>k\<close>, and
  leaves U+017F (long s) as it is; \<^verbatim>\<open>unicode.SimpleFold\<close> has the orbits \<open>S\<close>, \<open>s\<close>,
  U+017F and \<open>K\<close>, \<open>k\<close>, U+212A, and U+0130 is on no orbit but its own. Every other
  rune beyond ASCII is left without a case pair.
\<close>

definition go_tables :: unicode_tables where
  "go_tables =
     \<lparr>To_LowerCase = (\<lambda>r. if r = 0x130 then 0x69 else if r = 0x212A then 0x6B else r),
      FoldOrbit = (\<lambda>sr tr. (sr = 0x53 \<or> sr = 0x73) \<and> tr = 0x17F
                             \<or> (sr = 0x4B \<or> sr = 0x6B) \<and> tr = 0x212A)\<rparr>"

definition example_ctl :: Controller where
  "example_ctl =
     \<lparr>Claimer = \<lparr>DefaultTLSCertDur = 86400000000000, MinTLSCertDur = 300000000000,
                  MaxTLSCertDur = 86400000000000\<rparr>,
      policy = None\<rparr>"

definition example_gate :: X509Policy where
  "example_gate =
     \<lparr>IsIPAllowed = (\<lambda>ip. if ip = None then Some (errors_New ''ip not allowed'') else None),
      IsDNSAllowed = (\<lambda>name. if name = ''example.com'' then None
                                else Some (errors_New ''dns name not allowed''))\<rparr>"

definition example_gated_ctl :: Controller where
  "example_gated_ctl = example_ctl\<lparr>policy := Some \<lparr>x509 = Some example_gate\<rparr>\<rparr>"

definition example_acme :: "(unit, unit) ACME" where
  "example_acme =
     \<lparr>ID = [], Type = ''ACME'', Name = ''acme'', ForceCN = True, RequireEAB = False,
      Challenges = [], Claims = None, Options = None, ctl = None\<rparr>"

definition example_ParseIP :: "string \<Rightarrow> net_IP" where
  "example_ParseIP s = (if s = ''::1'' then Some (replicate 15 0 @ [1]) else None)"

definition example_NewController ::
  "(unit, unit) ACME \<Rightarrow> unit option \<Rightarrow> unit \<Rightarrow> unit option
     \<Rightarrow> Controller option \<times> error option" where
  "example_NewController p claims config options = (Some example_ctl, None)"

section \<open>Comparing ASCII strings\<close>

lemma of_char_lowerByte:
  "(of_char (lowerByte c) :: nat) =
     (if 0x41 \<le> (of_char c :: nat) \<and> (of_char c :: nat) \<le> 0x5A
      then of_char c + 0x20 else of_char c)"
  by (simp add: lowerByte_def)

lemma map_lowerByte_noUpper:
  "\<not> hasUpper s \<Longrightarrow> map lowerByte s = s"
  by (induction s) (auto simp: hasUpper_def lowerByte_def)

lemma strings_ToLower_ASCII:
  "isASCII s \<Longrightarrow> strings_ToLower U s = map lowerByte s"
  by (simp add: strings_ToLower_def map_lowerByte_noUpper)

lemma fold_arith:
  fixes x y :: nat
  shows "(int y = int x \<or>
          (0x41 \<le> min (int x) (int y) \<and> min (int x) (int y) \<le> 0x5A
           \<and> max (int x) (int y) = min (int x) (int y) + 0x20))
         \<longleftrightarrow> (if 0x41 \<le> x \<and> x \<le> 0x5A then x + 0x20 else x)
              = (if 0x41 \<le> y \<and> y \<le> 0x5A then y + 0x20 else y)"
  by (simp add: min_def max_def) linarith

lemma runesFold_ASCII:
  assumes "(of_char c :: nat) < RuneSelf" and "(of_char d :: nat) < RuneSelf"
  shows "runesFold U (int (of_char c)) (int (of_char d)) \<longleftrightarrow> lowerByte c = lowerByte d"
proof -
  have "lowerByte c = lowerByte d
        \<longleftrightarrow> (of_char (lowerByte c) :: nat) = of_char (lowerByte d)"
    by simp
  also have "\<dots> \<longleftrightarrow>
      (int (of_char d) = int (of_char c) \<or>
       (0x41 \<le> min (int (of_char c)) (int (of_char d))
        \<and> min (int (of_char c)) (int (of_char d)) \<le> 0x5A
        \<and> max (int (of_char c)) (int (of_char d))
            = min (int (of_char c)) (int (of_char d)) + 0x20))"
    unfolding of_char_lowerByte using fold_arith [of "of_char d" "of_char c"] by simp
  finally show ?thesis
    using assms by (simp add: runesFold_def RuneSelf_def Let_def)
qed

lemma firstRune_ASCII:
  "(of_char c :: nat) < RuneSelf \<Longrightarrow> firstRune (c # cs) = (int (of_char c), cs)"
  by (simp add: firstRune_def)

lemma strings_EqualFold_ASCII:
  "isASCII a \<Longrightarrow> isASCII b \<Longrightarrow>
     strings_EqualFold U a b \<longleftrightarrow> map lowerByte a = map lowerByte b"
proof (induction a arbitrary: b)
  case Nil
  then show ?case
    by (simp add: strings_EqualFold.simps [of U "[]"] eq_commute)
next
  case (Cons c cs)
  show ?case
  proof (cases b)
    case Nil
    then show ?thesis
      by (simp add: strings_EqualFold.simps [of U "c # cs"])
  next
    case (Cons d ds)
    with Cons.prems have heads: "(of_char c :: nat) < RuneSelf" "(of_char d :: nat) < RuneSelf"
      and rest: "isASCII cs" "isASCII ds"
      by (simp_all add: isASCII_def)
    show ?thesis
      unfolding Cons
      by (subst strings_EqualFold.simps)
         (simp add: firstRune_ASCII heads runesFold_ASCII Cons.IH [OF rest])
  qed
qed

lemma strings_ToLower_kinds:
  "strings_ToLower U HTTP_01 = HTTP_01"
  "strings_ToLower U DNS_01 = DNS_01"
  "strings_ToLower U TLS_ALPN_01 = TLS_ALPN_01"
  "strings_ToLower U DEVICE_ATTEST_01 = DEVICE_ATTEST_01"
  by (simp_all add: strings_ToLower_def isASCII_def hasUpper_def RuneSelf_def
        HTTP_01_def DNS_01_def TLS_ALPN_01_def DEVICE_ATTEST_01_def)

section \<open>Challenges\<close>

lemma Validate_ASCII:
  "isASCII c \<Longrightarrow> Validate U c = None \<longleftrightarrow> map lowerByte c \<in> set definedKinds"
  by (simp add: Validate_def ACMEChallenge_String_def strings_ToLower_ASCII definedKinds_def
        Let_def)

lemma Validate_ToLower:
  "Validate U c = None \<longleftrightarrow> strings_ToLower U c \<in> set definedKinds"
  by (simp add: Validate_def ACMEChallenge_String_def definedKinds_def Let_def)

lemma Validate_error:
  "Validate U c \<noteq> None \<Longrightarrow>
     Validate U c = Some (fmt_Errorf ''acme challenge %q is not supported'' [strings_ToLower U c])"
  by (simp add: Validate_def ACMEChallenge_String_def Let_def split: if_splits)

lemma definedKinds_ASCII:
  "k \<in> set definedKinds \<Longrightarrow> isASCII k \<and> map lowerByte k = k"
  by (auto simp: definedKinds_def HTTP_01_def DNS_01_def TLS_ALPN_01_def DEVICE_ATTEST_01_def
        isASCII_def RuneSelf_def lowerByte_def)

lemma Validate_ASCII_EqualFold:
  assumes "isASCII c"
  shows "Validate U c = None \<longleftrightarrow> (\<exists>k \<in> set definedKinds. strings_EqualFold U k c)"
proof -
  have "strings_EqualFold U k c \<longleftrightarrow> map lowerByte c = k" if "k \<in> set definedKinds" for k
    using definedKinds_ASCII [OF that] assms
    by (auto simp: strings_EqualFold_ASCII)
  then show ?thesis
    using Validate_ASCII [OF assms, of U] by auto
qed

text \<open>
  Claim C7, as the specification states it, asks that \<open>Validate\<close> accept exactly the
  names that match one of the four kinds case-insensitively. \<open>Validate\<close> lower-cases
  the name instead, and beyond ASCII that is another relation than the case-insensitive
  comparison \<^verbatim>\<open>strings.EqualFold\<close> that \<open>IsChallengeEnabled\<close> makes. With Go's table
  entries, the name \<open>DEV\<close> U+0130 \<open>CE-ATTEST-01\<close> (U+0130 is the bytes C4 B0) is accepted
  although it matches none of the four kinds, and the name \<open>dn\<close> U+017F \<open>-01\<close> (U+017F
  is the bytes C5 BF) is refused although it matches \<open>dns-01\<close>.
\<close>

theorem Validate_EqualFold_counterexample:
  "Validate go_tables (''DEV'' @ [CHR 0xC4, CHR 0xB0] @ ''CE-ATTEST-01'') = None
   \<and> \<not> strings_EqualFold go_tables HTTP_01 (''DEV'' @ [CHR 0xC4, CHR 0xB0] @ ''CE-ATTEST-01'')
   \<and> \<not> strings_EqualFold go_tables DNS_01 (''DEV'' @ [CHR 0xC4, CHR 0xB0] @ ''CE-ATTEST-01'')
   \<and> \<not> strings_EqualFold go_tables TLS_ALPN_01
          (''DEV'' @ [CHR 0xC4, CHR 0xB0] @ ''CE-ATTEST-01'')
   \<and> \<not> strings_EqualFold go_tables DEVICE_ATTEST_01
          (''DEV'' @ [CHR 0xC4, CHR 0xB0] @ ''CE-ATTEST-01'')
   \<and> strings_EqualFold go_tables DNS_01 (''dn'' @ [CHR 0xC5, CHR 0xBF] @ ''-01'')
   \<and> Validate go_tables (''dn'' @ [CHR 0xC5, CHR 0xBF] @ ''-01'')
       = Some (fmt_Errorf ''acme challenge %q is not supported''
                 [''dn'' @ [CHR 0xC5, CHR 0xBF] @ ''-01''])"
  by code_simp

text \<open>
  Claim C7, amended. For every challenge name, \<open>Validate\<close> returns nil exactly when
  the name, lower-cased by \<^verbatim>\<open>strings.ToLower\<close>, is one of the four defined kinds
  \<open>http-01\<close>, \<open>dns-01\<close>, \<open>tls-alpn-01\<close>, \<open>device-attest-01\<close>; for every other name it
  returns the error "acme challenge ... is not supported", formatted from the
  lower-cased name. For an ASCII name, the names accepted are exactly those that match
  one of the four kinds case-insensitively, under \<^verbatim>\<open>strings.EqualFold\<close>.
\<close>

theorem Validate_lower_cased:
  "(Validate U c = None \<longleftrightarrow> strings_ToLower U c \<in> set definedKinds)
   \<and> (Validate U c \<noteq> None \<longrightarrow>
        Validate U c
          = Some (fmt_Errorf ''acme challenge %q is not supported'' [strings_ToLower U c]))
   \<and> (isASCII c \<longrightarrow>
        (Validate U c = None \<longleftrightarrow> (\<exists>k \<in> set definedKinds. strings_EqualFold U k c)))"
  using Validate_ToLower [of U c] Validate_error [of U c] Validate_ASCII_EqualFold [of c U]
  by blast

theorem Validate_lower_cased_witness:
  "isASCII ''tls-ALPN-01''
   \<and> strings_EqualFold go_tables TLS_ALPN_01 ''tls-ALPN-01''
   \<and> Validate go_tables ''tls-ALPN-01'' = None
   \<and> Validate go_tables ''http-02'' \<noteq> None
   \<and> Validate go_tables ''http-02''
       = Some (fmt_Errorf ''acme challenge %q is not supported'' [''http-02''])"
proof -
  have ascii: "isASCII ''tls-ALPN-01''"
    by code_simp
  have fold: "strings_EqualFold go_tables TLS_ALPN_01 ''tls-ALPN-01''"
    by code_simp
  have kind: "TLS_ALPN_01 \<in> set definedKinds"
    by (simp add: definedKinds_def)
  have accepted: "Validate go_tables ''tls-ALPN-01'' = None"
    using Validate_lower_cased [of go_tables "''tls-ALPN-01''"] ascii fold kind
    by blast
  have other: "Validate go_tables ''http-02'' \<noteq> None"
    "strings_ToLower go_tables ''http-02'' = ''http-02''"
    by code_simp+
  then have refused: "Validate go_tables ''http-02''
       = Some (fmt_Errorf ''acme challenge %q is not supported'' [''http-02''])"
    using Validate_lower_cased [of go_tables "''http-02''"] by simp
  show ?thesis
    using ascii fold accepted other(1) refused by blast
qed

lemma Validate_examples:
  "Validate U ''http-01'' = None"
  "Validate U ''HTTP-01'' = None"
  "Validate U ''Dns-01'' = None"
  "Validate U ''tls-ALPN-01'' = None"
  "Validate U ''DEVICE-attest-01'' = None"
  "Validate U ''http-02'' =
     Some (fmt_Errorf ''acme challenge %q is not supported'' [''http-02''])"
  "Validate U ''ZAR'' = Some (fmt_Errorf ''acme challenge %q is not supported'' [''zar''])"
  "Validate U [] = Some (fmt_Errorf ''acme challenge %q is not supported'' [[]])"
  by code_simp+

lemma IsChallengeEnabled_loop_iff:
  "IsChallengeEnabled_loop U chs challenge
     \<longleftrightarrow> (\<exists>ch \<in> set chs. strings_EqualFold U ch challenge)"
  by (induction chs) simp_all

lemma IsChallengeEnabled_EqualFold:
  "IsChallengeEnabled U p challenge
     \<longleftrightarrow> (\<exists>ch \<in> set (effectiveSet p). strings_EqualFold U ch challenge)"
  by (simp add: IsChallengeEnabled_def effectiveSet_def IsChallengeEnabled_loop_iff Let_def)

lemma IsChallengeEnabled_ASCII:
  assumes "isASCII challenge" and "list_all isASCII (Challenges p)"
  shows "IsChallengeEnabled U p challenge
           \<longleftrightarrow> (\<exists>ch \<in> set (effectiveSet p). map lowerByte ch = map lowerByte challenge)"
proof -
  have "list_all isASCII (effectiveSet p)"
    using assms(2)
    by (simp add: effectiveSet_def isASCII_def RuneSelf_def HTTP_01_def DNS_01_def
          TLS_ALPN_01_def)
  then have "\<forall>ch \<in> set (effectiveSet p).
      strings_EqualFold U ch challenge \<longleftrightarrow> map lowerByte ch = map lowerByte challenge"
    using assms(1) by (simp add: list_all_iff strings_EqualFold_ASCII)
  then show ?thesis
    by (simp add: IsChallengeEnabled_EqualFold)
qed

text \<open>
  Claim C4. \<open>IsChallengeEnabled\<close> returns true exactly when the challenge matches,
  under \<^verbatim>\<open>strings.EqualFold\<close>, a member of the effective set: the configured list when
  it is not empty, and \<open>http-01\<close>, \<open>dns-01\<close>, \<open>tls-alpn-01\<close> when it is empty. When the
  challenge and the configured names are ASCII, the match is the equality of the
  names with their upper-case letters replaced by their lower case.
\<close>

theorem IsChallengeEnabled_effective:
  "(IsChallengeEnabled U p challenge
      \<longleftrightarrow> (\<exists>ch \<in> set (effectiveSet p). strings_EqualFold U ch challenge))
   \<and> (isASCII challenge \<and> list_all isASCII (Challenges p) \<longrightarrow>
        (IsChallengeEnabled U p challenge
           \<longleftrightarrow> (\<exists>ch \<in> set (effectiveSet p). map lowerByte ch = map lowerByte challenge)))"
  using IsChallengeEnabled_EqualFold [of U p challenge]
    IsChallengeEnabled_ASCII [of challenge p U]
  by blast

theorem IsChallengeEnabled_effective_witness:
  "isASCII ''DNS-01'' \<and> isASCII ''device-attest-01''
   \<and> list_all isASCII (Challenges example_acme)
   \<and> effectiveSet example_acme = [''http-01'', ''dns-01'', ''tls-alpn-01'']
   \<and> IsChallengeEnabled example_tables example_acme ''DNS-01''
   \<and> \<not> IsChallengeEnabled example_tables example_acme ''device-attest-01''
   \<and> effectiveSet (example_acme\<lparr>Challenges := [''device-attest-01'']\<rparr>) = [''device-attest-01'']
   \<and> IsChallengeEnabled example_tables (example_acme\<lparr>Challenges := [''device-attest-01'']\<rparr>)
        ''device-attest-01''
   \<and> \<not> IsChallengeEnabled example_tables (example_acme\<lparr>Challenges := [''device-attest-01'']\<rparr>)
        ''http-01''"
proof -
  have ascii: "isASCII ''DNS-01''" "isASCII ''device-attest-01''" "isASCII ''http-01''"
    by code_simp+
  have configured: "list_all isASCII (Challenges example_acme)"
    "list_all isASCII (Challenges (example_acme\<lparr>Challenges := [''device-attest-01'']\<rparr>))"
    using ascii(2) by (simp_all add: example_acme_def)
  have sets: "effectiveSet example_acme = [''http-01'', ''dns-01'', ''tls-alpn-01'']"
    "effectiveSet (example_acme\<lparr>Challenges := [''device-attest-01'']\<rparr>) = [''device-attest-01'']"
    by (simp_all add: effectiveSet_def example_acme_def HTTP_01_def DNS_01_def TLS_ALPN_01_def)
  have default_dns: "IsChallengeEnabled example_tables example_acme ''DNS-01''"
  proof -
    have "\<exists>ch \<in> set (effectiveSet example_acme). map lowerByte ch = map lowerByte ''DNS-01''"
      unfolding sets by code_simp
    then show ?thesis
      using IsChallengeEnabled_effective [of example_tables example_acme "''DNS-01''"]
        ascii(1) configured(1)
      by blast
  qed
  have default_device: "\<not> IsChallengeEnabled example_tables example_acme ''device-attest-01''"
  proof -
    have "\<not> (\<exists>ch \<in> set (effectiveSet example_acme).
               map lowerByte ch = map lowerByte ''device-attest-01'')"
      unfolding sets by code_simp
    then show ?thesis
      using IsChallengeEnabled_effective [of example_tables example_acme "''device-attest-01''"]
        ascii(2) configured(1)
      by blast
  qed
  have only_device:
    "IsChallengeEnabled example_tables (example_acme\<lparr>Challenges := [''device-attest-01'']\<rparr>)
       ''device-attest-01''"
  proof -
    have "\<exists>ch \<in> set (effectiveSet (example_acme\<lparr>Challenges := [''device-attest-01'']\<rparr>)).
            map lowerByte ch = map lowerByte ''device-attest-01''"
      unfolding sets by code_simp
    then show ?thesis
      using IsChallengeEnabled_effective [of example_tables
          "example_acme\<lparr>Challenges := [''device-attest-01'']\<rparr>" "''device-attest-01''"]
        ascii(2) configured(2)
      by blast
  qed
  have only_device_http:
    "\<not> IsChallengeEnabled example_tables (example_acme\<lparr>Challenges := [''device-attest-01'']\<rparr>)
       ''http-01''"
  proof -
    have "\<not> (\<exists>ch \<in> set (effectiveSet (example_acme\<lparr>Challenges := [''device-attest-01'']\<rparr>)).
               map lowerByte ch = map lowerByte ''http-01'')"
      unfolding sets by code_simp
    then show ?thesis
      using IsChallengeEnabled_effective [of example_tables
          "example_acme\<lparr>Challenges := [''device-attest-01'']\<rparr>" "''http-01''"]
        ascii(3) configured(2)
      by blast
  qed
  show ?thesis
    using ascii(1,2) configured(1) sets default_dns default_device only_device only_device_http
    by blast
qed

text \<open>
  The default set enables the three default challenges, in any case of their letters,
  and not \<open>device-attest-01\<close>; the configured list \<open>[device-attest-01]\<close> enables only
  that challenge. This holds for any Unicode tables.
\<close>

lemma IsChallengeEnabled_default:
  assumes "Challenges p = []"
  shows "IsChallengeEnabled U p ''http-01''" and "IsChallengeEnabled U p ''DNS-01''"
    and "IsChallengeEnabled U p ''tls-alpn-01''"
    and "\<not> IsChallengeEnabled U p ''device-attest-01''"
proof -
  have "strings_EqualFold U ''http-01'' ''http-01''"
    "strings_EqualFold U ''dns-01'' ''DNS-01''"
    "strings_EqualFold U ''tls-alpn-01'' ''tls-alpn-01''"
    "\<not> strings_EqualFold U ''http-01'' ''device-attest-01''"
    "\<not> strings_EqualFold U ''dns-01'' ''device-attest-01''"
    "\<not> strings_EqualFold U ''tls-alpn-01'' ''device-attest-01''"
    by code_simp+
  with assms show "IsChallengeEnabled U p ''http-01''" "IsChallengeEnabled U p ''DNS-01''"
    "IsChallengeEnabled U p ''tls-alpn-01''" "\<not> IsChallengeEnabled U p ''device-attest-01''"
    by (simp_all add: IsChallengeEnabled_def HTTP_01_def DNS_01_def TLS_ALPN_01_def)
qed

lemma IsChallengeEnabled_device_attest_only:
  assumes "Challenges p = [''device-attest-01'']"
  shows "IsChallengeEnabled U p ''device-attest-01''"
    and "\<not> IsChallengeEnabled U p ''http-01''" and "\<not> IsChallengeEnabled U p ''dns-01''"
    and "\<not> IsChallengeEnabled U p ''tls-alpn-01''"
proof -
  have "strings_EqualFold U ''device-attest-01'' ''device-attest-01''"
    "\<not> strings_EqualFold U ''device-attest-01'' ''http-01''"
    "\<not> strings_EqualFold U ''device-attest-01'' ''dns-01''"
    "\<not> strings_EqualFold U ''device-attest-01'' ''tls-alpn-01''"
    by code_simp+
  with assms show "IsChallengeEnabled U p ''device-attest-01''"
    "\<not> IsChallengeEnabled U p ''http-01''" "\<not> IsChallengeEnabled U p ''dns-01''"
    "\<not> IsChallengeEnabled U p ''tls-alpn-01''"
    by (simp_all add: IsChallengeEnabled_def)
qed

section \<open>Revocation\<close>

text \<open>
  Claim C8. For every provisioner and every token, \<open>AuthorizeRevoke\<close> returns nil.
\<close>

theorem AuthorizeRevoke_nil:
  "AuthorizeRevoke p token = None"
  by (simp add: AuthorizeRevoke_def)

section \<open>Identity\<close>

text \<open>
  \<open>GetID\<close> returns the explicit identifier when one is set, and \<open>acme/\<close> followed by
  the name otherwise.
\<close>

lemma GetID_explicit_or_derived:
  "GetID p = (if ID p = [] then ''acme/'' @ Name p else ID p)"
  by (simp add: GetID_def GetIDForToken_def)

section \<open>Initialization\<close>

lemma Init_challenges_first:
  "\<forall>x \<in> set ok. Validate U x = None \<Longrightarrow> Validate U c = Some err \<Longrightarrow>
     Init_challenges U (ok @ c # rest) = Some err"
  by (induction ok) simp_all

lemma Init_challenges_None:
  "Init_challenges U cs = None \<longleftrightarrow> (\<forall>x \<in> set cs. Validate U x = None)"
  by (induction cs) (auto split: option.splits)

lemma Validate_Some:
  "Validate U c \<noteq> None \<Longrightarrow>
     Validate U c =
       Some (fmt_Errorf ''acme challenge %q is not supported'' [ACMEChallenge_String U c])"
  by (simp add: Validate_def Let_def split: if_splits)

text \<open>
  Claim C6. \<open>Init\<close> returns the error "provisioner type cannot be empty" when the type
  is empty and "provisioner name cannot be empty" when the name is empty (the
  configuration errors). Otherwise the challenges are validated in order, and the
  first one that does not validate ends the call with its own error of \<open>Validate\<close>,
  which is formatted from that challenge. When every challenge validates and the
  controller is constructed without error, \<open>Init\<close> returns nil, stores the controller,
  and \<open>DefaultTLSCertDuration\<close> then returns the default of that controller.
\<close>

theorem Init_contract:
  "(Type p = [] \<longrightarrow>
      fst (Init NC U p config) = Some (errors_New ''provisioner type cannot be empty''))
   \<and> (Type p \<noteq> [] \<and> Name p = [] \<longrightarrow>
      fst (Init NC U p config) = Some (errors_New ''provisioner name cannot be empty''))
   \<and> (Type p \<noteq> [] \<and> Name p \<noteq> [] \<and> Challenges p = ok @ c # rest
        \<and> (\<forall>x \<in> set ok. Validate U x = None) \<and> Validate U c \<noteq> None \<longrightarrow>
      fst (Init NC U p config) = Validate U c
      \<and> Validate U c = Some (fmt_Errorf ''acme challenge %q is not supported''
                               [ACMEChallenge_String U c]))
   \<and> (Type p \<noteq> [] \<and> Name p \<noteq> [] \<and> (\<forall>x \<in> set (Challenges p). Validate U x = None)
        \<and> NC p (Claims p) config (Options p) = (Some k, None) \<longrightarrow>
      Init NC U p config = (None, p\<lparr>ctl := Some k\<rparr>)
      \<and> DefaultTLSCertDuration (snd (Init NC U p config))
          = Return (DefaultTLSCertDur (Claimer k)))"
proof (intro conjI impI)
  assume "Type p = []"
  then show "fst (Init NC U p config) = Some (errors_New ''provisioner type cannot be empty'')"
    by (simp add: Init_def)
next
  assume "Type p \<noteq> [] \<and> Name p = []"
  then show "fst (Init NC U p config) = Some (errors_New ''provisioner name cannot be empty'')"
    by (simp add: Init_def)
next
  assume a: "Type p \<noteq> [] \<and> Name p \<noteq> [] \<and> Challenges p = ok @ c # rest
        \<and> (\<forall>x \<in> set ok. Validate U x = None) \<and> Validate U c \<noteq> None"
  then obtain err where err: "Validate U c = Some err"
    by auto
  with a have "Init_challenges U (Challenges p) = Some err"
    by (simp add: Init_challenges_first)
  with a err show "fst (Init NC U p config) = Validate U c"
    by (simp add: Init_def)
  from a show "Validate U c = Some (fmt_Errorf ''acme challenge %q is not supported''
                                      [ACMEChallenge_String U c])"
    by (simp add: Validate_Some)
next
  assume a: "Type p \<noteq> [] \<and> Name p \<noteq> [] \<and> (\<forall>x \<in> set (Challenges p). Validate U x = None)
        \<and> NC p (Claims p) config (Options p) = (Some k, None)"
  then have "Init_challenges U (Challenges p) = None"
    by (simp add: Init_challenges_None)
  with a show stored: "Init NC U p config = (None, p\<lparr>ctl := Some k\<rparr>)"
    by (simp add: Init_def)
  show "DefaultTLSCertDuration (snd (Init NC U p config))
          = Return (DefaultTLSCertDur (Claimer k))"
    by (simp add: stored DefaultTLSCertDuration_def)
qed

theorem Init_contract_witness:
  "fst (Init example_NewController example_tables (example_acme\<lparr>Type := []\<rparr>) ())
     = Some (errors_New ''provisioner type cannot be empty'')
   \<and> fst (Init example_NewController example_tables (example_acme\<lparr>Name := []\<rparr>) ())
     = Some (errors_New ''provisioner name cannot be empty'')
   \<and> fst (Init example_NewController example_tables
            (example_acme\<lparr>Challenges := [''http-01'', ''DNS-01'', ''Zar'', ''x'']\<rparr>) ())
     = Some (fmt_Errorf ''acme challenge %q is not supported'' [''zar''])
   \<and> Init example_NewController example_tables
         (example_acme\<lparr>Challenges := [''http-01'', ''DNS-01'']\<rparr>) ()
     = (None, example_acme\<lparr>Challenges := [''http-01'', ''DNS-01''], ctl := Some example_ctl\<rparr>)
   \<and> DefaultTLSCertDuration
         (snd (Init example_NewController example_tables
                 (example_acme\<lparr>Challenges := [''http-01'', ''DNS-01'']\<rparr>) ()))
     = Return 86400000000000"
proof -
  have v: "Validate example_tables ''http-01'' = None"
    "Validate example_tables ''DNS-01'' = None"
    "Validate example_tables ''Zar'' \<noteq> None"
    "ACMEChallenge_String example_tables ''Zar'' = ''zar''"
    by code_simp+
  have no_type:
    "fst (Init example_NewController example_tables (example_acme\<lparr>Type := []\<rparr>) ())
       = Some (errors_New ''provisioner type cannot be empty'')"
    using Init_contract [where p = "example_acme\<lparr>Type := []\<rparr>"
        and NC = example_NewController and U = example_tables and config = "()"]
    by simp
  have no_name:
    "fst (Init example_NewController example_tables (example_acme\<lparr>Name := []\<rparr>) ())
       = Some (errors_New ''provisioner name cannot be empty'')"
    using Init_contract [where p = "example_acme\<lparr>Name := []\<rparr>"
        and NC = example_NewController and U = example_tables and config = "()"]
    by (simp add: example_acme_def)
  have bad:
    "fst (Init example_NewController example_tables
            (example_acme\<lparr>Challenges := [''http-01'', ''DNS-01'', ''Zar'', ''x'']\<rparr>) ())
       = Some (fmt_Errorf ''acme challenge %q is not supported'' [''zar''])"
    using Init_contract [where
        p = "example_acme\<lparr>Challenges := [''http-01'', ''DNS-01'', ''Zar'', ''x'']\<rparr>"
        and ok = "[''http-01'', ''DNS-01'']" and c = "''Zar''" and rest = "[''x'']"
        and NC = example_NewController and U = example_tables and config = "()"]
    by (simp add: v example_acme_def)
  have good:
    "Init example_NewController example_tables
         (example_acme\<lparr>Challenges := [''http-01'', ''DNS-01'']\<rparr>) ()
       = (None, example_acme\<lparr>Challenges := [''http-01'', ''DNS-01''], ctl := Some example_ctl\<rparr>)
     \<and> DefaultTLSCertDuration
         (snd (Init example_NewController example_tables
                 (example_acme\<lparr>Challenges := [''http-01'', ''DNS-01'']\<rparr>) ()))
       = Return 86400000000000"
    using Init_contract [where p = "example_acme\<lparr>Challenges := [''http-01'', ''DNS-01'']\<rparr>"
        and NC = example_NewController and U = example_tables and config = "()"
        and k = example_ctl and ok = "[]" and c = "[]" and rest = "[]"]
    by (simp add: v example_acme_def example_NewController_def example_ctl_def
          DefaultTLSCertDuration_def)
  show ?thesis
    using no_type no_name bad good by blast
qed

text \<open>
  Claim C10. When the type is empty, the name is empty or some challenge does not
  validate, \<open>Init\<close> returns an error and leaves the provisioner as it was, its
  controller included; the controller constructor has no part in the result.
\<close>

theorem Init_error_unchanged:
  assumes "Type p = [] \<or> Name p = [] \<or> (\<exists>c \<in> set (Challenges p). Validate U c \<noteq> None)"
  shows "fst (Init NC U p config) \<noteq> None
       \<and> snd (Init NC U p config) = p
       \<and> ctl (snd (Init NC U p config)) = ctl p
       \<and> Init NC' U p config = Init NC U p config"
proof -
  consider (no_type) "Type p = []"
    | (no_name) "Type p \<noteq> []" "Name p = []"
    | (bad_challenge) "Type p \<noteq> []" "Name p \<noteq> []"
        "\<exists>c \<in> set (Challenges p). Validate U c \<noteq> None"
    using assms by blast
  then show ?thesis
  proof cases
    case no_type
    then show ?thesis by (simp add: Init_def)
  next
    case no_name
    then show ?thesis by (simp add: Init_def)
  next
    case bad_challenge
    then obtain err where "Init_challenges U (Challenges p) = Some err"
      using Init_challenges_None [of U "Challenges p"] by auto
    with bad_challenge show ?thesis by (simp add: Init_def)
  qed
qed

theorem Init_error_unchanged_witness:
  "fst (Init example_NewController example_tables
          (example_acme\<lparr>Challenges := [''http-02'']\<rparr>) ()) \<noteq> None
   \<and> ctl (snd (Init example_NewController example_tables
                 (example_acme\<lparr>Challenges := [''http-02'']\<rparr>) ())) = None
   \<and> snd (Init example_NewController example_tables (example_acme\<lparr>Name := []\<rparr>) ())
       = example_acme\<lparr>Name := []\<rparr>
   \<and> snd (Init example_NewController example_tables (example_acme\<lparr>Type := []\<rparr>) ())
       = example_acme\<lparr>Type := []\<rparr>"
proof -
  have v: "Validate example_tables ''http-02'' \<noteq> None"
    by code_simp
  show ?thesis
    using
      Init_error_unchanged [of "example_acme\<lparr>Challenges := [''http-02'']\<rparr>" example_tables
        example_NewController "()" example_NewController]
      Init_error_unchanged [of "example_acme\<lparr>Name := []\<rparr>" example_tables
        example_NewController "()" example_NewController]
      Init_error_unchanged [of "example_acme\<lparr>Type := []\<rparr>" example_tables
        example_NewController "()" example_NewController]
    by (simp add: v example_acme_def)
qed

section \<open>Order identifiers\<close>

lemma example_acme_no_gate:
  "getX509 (getPolicy (ctl (example_acme\<lparr>ctl := Some example_ctl\<rparr>))) = None"
  by (simp add: getX509_def getPolicy_def example_ctl_def)

lemma example_acme_gate:
  "getX509 (getPolicy (ctl (example_acme\<lparr>ctl := Some example_gated_ctl\<rparr>)))
     = Some example_gate"
  by (simp add: getX509_def getPolicy_def example_gated_ctl_def)

text \<open>
  Claim C3. When no X.509 policy is configured, \<open>AuthorizeOrderIdentifier\<close> returns
  nil for every identifier, whatever its type and value, and whatever \<^verbatim>\<open>net.ParseIP\<close>
  would say of the value.
\<close>

theorem AuthorizeOrderIdentifier_no_gate:
  "getX509 (getPolicy (ctl p)) = None \<Longrightarrow>
     AuthorizeOrderIdentifier ParseIP p identifier = None"
  by (simp add: AuthorizeOrderIdentifier_def)

theorem AuthorizeOrderIdentifier_no_gate_witness:
  "getX509 (getPolicy (ctl (example_acme\<lparr>ctl := Some example_ctl\<rparr>))) = None
   \<and> example_ParseIP ''999.0.0.1.x'' = None
   \<and> AuthorizeOrderIdentifier example_ParseIP (example_acme\<lparr>ctl := Some example_ctl\<rparr>)
         \<lparr>IdType = IP, Value = ''999.0.0.1.x''\<rparr> = None"
  using example_acme_no_gate
    AuthorizeOrderIdentifier_no_gate [OF example_acme_no_gate, of example_ParseIP
      "\<lparr>IdType = IP, Value = ''999.0.0.1.x''\<rparr>"]
  by (simp add: example_ParseIP_def)

text \<open>
  Claim C5. When an X.509 policy is configured, \<open>AuthorizeOrderIdentifier\<close> returns,
  for an identifier of type \<open>ip\<close>, what the policy's \<open>IsIPAllowed\<close> answers on the
  result of \<^verbatim>\<open>net.ParseIP\<close> for the value (nil included, when the value does not
  parse), and for an identifier of type \<open>dns\<close> what \<open>IsDNSAllowed\<close> answers on the
  value itself.
\<close>

theorem AuthorizeOrderIdentifier_gate:
  assumes "getX509 (getPolicy (ctl p)) = Some gate"
  shows "(IdType identifier = IP \<longrightarrow>
            AuthorizeOrderIdentifier ParseIP p identifier
              = IsIPAllowed gate (ParseIP (Value identifier)))
       \<and> (IdType identifier = DNS \<longrightarrow>
            AuthorizeOrderIdentifier ParseIP p identifier
              = IsDNSAllowed gate (Value identifier))"
  using assms by (simp add: AuthorizeOrderIdentifier_def IP_def DNS_def)

theorem AuthorizeOrderIdentifier_gate_witness:
  "getX509 (getPolicy (ctl (example_acme\<lparr>ctl := Some example_gated_ctl\<rparr>)))
     = Some example_gate
   \<and> AuthorizeOrderIdentifier example_ParseIP (example_acme\<lparr>ctl := Some example_gated_ctl\<rparr>)
         \<lparr>IdType = IP, Value = ''::1''\<rparr> = None
   \<and> example_ParseIP ''300.1.1.1'' = None
   \<and> AuthorizeOrderIdentifier example_ParseIP (example_acme\<lparr>ctl := Some example_gated_ctl\<rparr>)
         \<lparr>IdType = IP, Value = ''300.1.1.1''\<rparr> = Some (errors_New ''ip not allowed'')
   \<and> AuthorizeOrderIdentifier example_ParseIP (example_acme\<lparr>ctl := Some example_gated_ctl\<rparr>)
         \<lparr>IdType = DNS, Value = ''example.com''\<rparr> = None
   \<and> AuthorizeOrderIdentifier example_ParseIP (example_acme\<lparr>ctl := Some example_gated_ctl\<rparr>)
         \<lparr>IdType = DNS, Value = ''example.org''\<rparr> = Some (errors_New ''dns name not allowed'')"
  using example_acme_gate
    AuthorizeOrderIdentifier_gate [OF example_acme_gate,
      of "\<lparr>IdType = IP, Value = ''::1''\<rparr>" example_ParseIP]
    AuthorizeOrderIdentifier_gate [OF example_acme_gate,
      of "\<lparr>IdType = IP, Value = ''300.1.1.1''\<rparr>" example_ParseIP]
    AuthorizeOrderIdentifier_gate [OF example_acme_gate,
      of "\<lparr>IdType = DNS, Value = ''example.com''\<rparr>" example_ParseIP]
    AuthorizeOrderIdentifier_gate [OF example_acme_gate,
      of "\<lparr>IdType = DNS, Value = ''example.org''\<rparr>" example_ParseIP]
  by (simp add: example_gate_def example_ParseIP_def IP_def DNS_def)

text \<open>
  Claim C2, as the specification states it, asks for the error on an identifier of an
  unknown type under every configuration, without a policy too. Without a policy the
  code returns nil before it looks at the type: the identifier of type \<open>unknown\<close> is
  allowed by a provisioner whose controller has no policy.
\<close>

theorem AuthorizeOrderIdentifier_unknown_counterexample:
  "''unknown'' \<noteq> IP \<and> ''unknown'' \<noteq> DNS
   \<and> getX509 (getPolicy (ctl (example_acme\<lparr>ctl := Some example_ctl\<rparr>))) = None
   \<and> AuthorizeOrderIdentifier example_ParseIP (example_acme\<lparr>ctl := Some example_ctl\<rparr>)
         \<lparr>IdType = ''unknown'', Value = ''example.com''\<rparr> = None"
  by (simp add: AuthorizeOrderIdentifier_def IP_def DNS_def getX509_def getPolicy_def
        example_ctl_def)

text \<open>
  Claim C2, amended. For every identifier whose type is neither \<open>ip\<close> nor \<open>dns\<close>,
  \<open>AuthorizeOrderIdentifier\<close> returns the error "invalid ACME identifier type ...
  provided", formatted from that type, when an X.509 policy is configured, whatever
  the policy would answer; it returns nil when no X.509 policy is configured.
\<close>

theorem AuthorizeOrderIdentifier_unsupported:
  assumes "IdType identifier \<noteq> IP" and "IdType identifier \<noteq> DNS"
  shows "AuthorizeOrderIdentifier ParseIP p identifier
           = (case getX509 (getPolicy (ctl p)) of
                None \<Rightarrow> None
              | Some gate \<Rightarrow>
                  Some (fmt_Errorf ''invalid ACME identifier type '%s' provided''
                          [IdType identifier]))"
  using assms by (simp add: AuthorizeOrderIdentifier_def split: option.splits)

theorem AuthorizeOrderIdentifier_unsupported_witness:
  "''unknown'' \<noteq> IP \<and> ''unknown'' \<noteq> DNS
   \<and> AuthorizeOrderIdentifier example_ParseIP (example_acme\<lparr>ctl := Some example_gated_ctl\<rparr>)
         \<lparr>IdType = ''unknown'', Value = ''example.com''\<rparr>
       = Some (fmt_Errorf ''invalid ACME identifier type '%s' provided'' [''unknown''])
   \<and> AuthorizeOrderIdentifier example_ParseIP (example_acme\<lparr>ctl := Some example_ctl\<rparr>)
         \<lparr>IdType = ''unknown'', Value = ''example.com''\<rparr>
       = None"
proof -
  have unknown: "''unknown'' \<noteq> IP" "''unknown'' \<noteq> DNS"
    by (simp_all add: IP_def DNS_def)
  show ?thesis
    using unknown
      AuthorizeOrderIdentifier_unsupported [of "\<lparr>IdType = ''unknown'', Value = ''example.com''\<rparr>"
        example_ParseIP "example_acme\<lparr>ctl := Some example_gated_ctl\<rparr>"]
      AuthorizeOrderIdentifier_unsupported [of "\<lparr>IdType = ''unknown'', Value = ''example.com''\<rparr>"
        example_ParseIP "example_acme\<lparr>ctl := Some example_ctl\<rparr>"]
    by (simp add: example_acme_gate [simplified] example_acme_no_gate [simplified])
qed

section \<open>Sign options\<close>

text \<open>
  Claim C1, as the specification states it, asks for a chain of exactly six elements
  for every provisioner. The chain of an initialized provisioner has seven elements,
  the first being the provisioner itself, and a provisioner whose controller is nil
  returns no chain: the call panics.
\<close>

theorem AuthorizeSign_six_counterexample:
  "AuthorizeSign (example_acme\<lparr>ctl := Some example_ctl\<rparr>) ''token'' =
     Return
       ([Provisioner (example_acme\<lparr>ctl := Some example_ctl\<rparr>),
         provisionerExtensionOption TypeACME ''acme'' [],
         forceCNOption True,
         profileDefaultDuration 86400000000000,
         defaultPublicKeyValidator,
         validityValidator 300000000000 86400000000000,
         x509NamePolicyValidator None],
        None)
   \<and> length
        [Provisioner (example_acme\<lparr>ctl := Some example_ctl\<rparr>),
         provisionerExtensionOption TypeACME ''acme'' [],
         forceCNOption True,
         profileDefaultDuration 86400000000000,
         defaultPublicKeyValidator,
         validityValidator 300000000000 86400000000000,
         x509NamePolicyValidator None] \<noteq> 6
   \<and> AuthorizeSign example_acme ''token'' = Panic"
  by (simp add: AuthorizeSign_def example_acme_def example_ctl_def getX509_def getPolicy_def)

text \<open>
  Claim C1, amended. For every provisioner whose controller is set and every token,
  \<open>AuthorizeSign\<close> returns a nil error together with the chain of the provisioner
  itself followed by six elements in this order: the provisioner extension (the
  provisioner-identity modifier), the forced-CN modifier, the default-duration
  modifier, the public-key validator, the validity validator over the controller's
  minimum and maximum durations, and the name-policy validator over the controller's
  X.509 policy.
\<close>

theorem AuthorizeSign_chain:
  "ctl p = Some k \<Longrightarrow>
     AuthorizeSign p token =
       Return
         (Provisioner p #
          [provisionerExtensionOption TypeACME (Name p) [],
           forceCNOption (ForceCN p),
           profileDefaultDuration (DefaultTLSCertDur (Claimer k)),
           defaultPublicKeyValidator,
           validityValidator (MinTLSCertDur (Claimer k)) (MaxTLSCertDur (Claimer k)),
           x509NamePolicyValidator (getX509 (policy k))],
          None)"
  by (simp add: AuthorizeSign_def getPolicy_def)

theorem AuthorizeSign_chain_witness:
  "ctl (example_acme\<lparr>ctl := Some example_gated_ctl\<rparr>) = Some example_gated_ctl
   \<and> AuthorizeSign (example_acme\<lparr>ctl := Some example_gated_ctl\<rparr>) ''token'' =
       Return
         ([Provisioner (example_acme\<lparr>ctl := Some example_gated_ctl\<rparr>),
           provisionerExtensionOption TypeACME ''acme'' [],
           forceCNOption True,
           profileDefaultDuration 86400000000000,
           defaultPublicKeyValidator,
           validityValidator 300000000000 86400000000000,
           x509NamePolicyValidator (Some example_gate)],
          None)"
  using AuthorizeSign_chain [of "example_acme\<lparr>ctl := Some example_gated_ctl\<rparr>"
      example_gated_ctl "''token''"]
  by (simp add: example_acme_def example_gated_ctl_def example_ctl_def getX509_def)

text \<open>
  Claim C9. \<open>AuthorizeSign\<close> returns whenever the controller is set, and whatever it
  returns is a nil error with a chain of exactly seven elements: the provisioner
  itself, then the six modifiers and validators in the order of the specification.
\<close>

theorem AuthorizeSign_seven:
  "(ctl p \<noteq> None \<longrightarrow> (\<exists>chain. AuthorizeSign p token = Return (chain, None)))
   \<and> (AuthorizeSign p token = Return (chain, err) \<longrightarrow>
        err = None
        \<and> length chain = 7
        \<and> hd chain = Provisioner p
        \<and> (\<exists>k. ctl p = Some k
               \<and> tl chain =
                   [provisionerExtensionOption TypeACME (Name p) [],
                    forceCNOption (ForceCN p),
                    profileDefaultDuration (DefaultTLSCertDur (Claimer k)),
                    defaultPublicKeyValidator,
                    validityValidator (MinTLSCertDur (Claimer k)) (MaxTLSCertDur (Claimer k)),
                    x509NamePolicyValidator (getX509 (getPolicy (Some k)))]))"
  by (cases "ctl p") (auto simp: AuthorizeSign_def)

theorem AuthorizeSign_seven_witness:
  "ctl (example_acme\<lparr>ctl := Some example_ctl\<rparr>) \<noteq> None
   \<and> AuthorizeSign (example_acme\<lparr>ctl := Some example_ctl\<rparr>) ''token''
       = Return
           ([Provisioner (example_acme\<lparr>ctl := Some example_ctl\<rparr>),
             provisionerExtensionOption TypeACME ''acme'' [],
             forceCNOption True,
             profileDefaultDuration 86400000000000,
             defaultPublicKeyValidator,
             validityValidator 300000000000 86400000000000,
             x509NamePolicyValidator None],
            None)
   \<and> length
        [Provisioner (example_acme\<lparr>ctl := Some example_ctl\<rparr>),
         provisionerExtensionOption TypeACME ''acme'' [],
         forceCNOption True,
         profileDefaultDuration 86400000000000,
         defaultPublicKeyValidator,
         validityValidator 300000000000 86400000000000,
         x509NamePolicyValidator None] = 7"
proof -
  obtain chain where
    returned: "AuthorizeSign (example_acme\<lparr>ctl := Some example_ctl\<rparr>) ''token''
                 = Return (chain, None)"
    using AuthorizeSign_seven [of "example_acme\<lparr>ctl := Some example_ctl\<rparr>" "''token''"]
    by auto
  then have shape: "length chain = 7"
    "hd chain = Provisioner (example_acme\<lparr>ctl := Some example_ctl\<rparr>)"
    "tl chain =
       [provisionerExtensionOption TypeACME ''acme'' [],
        forceCNOption True,
        profileDefaultDuration 86400000000000,
        defaultPublicKeyValidator,
        validityValidator 300000000000 86400000000000,
        x509NamePolicyValidator None]"
    using AuthorizeSign_seven [of "example_acme\<lparr>ctl := Some example_ctl\<rparr>" "''token''"
        chain None]
    by (simp_all add: example_acme_def example_ctl_def getX509_def getPolicy_def)
  then have "chain =
       [Provisioner (example_acme\<lparr>ctl := Some example_ctl\<rparr>),
        provisionerExtensionOption TypeACME ''acme'' [],
        forceCNOption True,
        profileDefaultDuration 86400000000000,
        defaultPublicKeyValidator,
        validityValidator 300000000000 86400000000000,
        x509NamePolicyValidator None]"
    by (cases chain) simp_all
  with returned show ?thesis
    by simp
qed

end
